theory Spec2Isabelle
  imports Main "HOL-Library.Word" "HOL-Library.Log_Nat"
begin

section \<open>Machine types of \<^verbatim>\<open>audio_capture_macos.cc\<close>\<close>

text \<open>
  \<^verbatim>\<open>UInt32\<close>, \<^verbatim>\<open>AudioDeviceID\<close> and \<^verbatim>\<open>OSStatus\<close> are 32-bit values (the status
  \<^verbatim>\<open>-1\<close> is the word of all ones); a raw sample is an \<^verbatim>\<open>int16_t\<close>, read as two's
  complement by \<open>sint\<close>. Pointers are addresses, \<open>None\<close> being the null pointer. The
  three constants have the values of the CoreAudio headers: \<^verbatim>\<open>noErr\<close> and
  \<^verbatim>\<open>kAudioDeviceUnknown\<close> are 0, \<^verbatim>\<open>kAudioHardwareBadDeviceError\<close> is the four-character
  code \<^verbatim>\<open>!dev\<close>.
\<close>

type_synonym UInt32 = "32 word"
type_synonym OSStatus = "32 word"
type_synonym AudioDeviceID = "32 word"
type_synonym int16_t = "16 word"
type_synonym pointer = "nat option"

definition noErr :: OSStatus where
  "noErr = 0"

definition kAudioDeviceUnknown :: AudioDeviceID where
  "kAudioDeviceUnknown = 0"

definition kAudioHardwareBadDeviceError :: OSStatus where
  "kAudioHardwareBadDeviceError = 0x21646576"

section \<open>Single-precision arithmetic\<close>

text \<open>
  A \<^verbatim>\<open>float\<close> is a finite value (the rational it denotes), an infinity or a NaN. The two
  zeros are not told apart: no operation of the program looks at the sign of a zero. The
  result of an operation is the exact result rounded to the nearest binary32 value, ties to
  even: 24 bits of significand, the least exponent \<open>-126\<close> (below it the spacing stays
  \<open>2 powi -149\<close>), overflow to an infinity from \<open>2 powi 128\<close> on.
\<close>

datatype f32 = Fin rat | PInf | NInf | NaN

definition binade :: "rat \<Rightarrow> int" where
  "binade x = (case quotient_of \<bar>x\<bar> of (p, q) \<Rightarrow>
     let d = bitlen p - bitlen q in if 2 powi d \<le> \<bar>x\<bar> then d else d - 1)"

definition round_half_even :: "rat \<Rightarrow> int" where
  "round_half_even r = (let f = \<lfloor>r\<rfloor>; d = r - of_int f in
     if d < 1 / 2 then f else if 1 / 2 < d then f + 1 else if even f then f else f + 1)"

definition f32_round :: "rat \<Rightarrow> f32" where
  "f32_round x = (if x = 0 then Fin 0 else
     let e = max (binade x) (- 126); q = 2 powi (e - 23);
         y = of_int (round_half_even (x / q)) * q
     in if 2 powi 128 \<le> \<bar>y\<bar> then (if 0 < x then PInf else NInf) else Fin y)"

fun f32_neg :: "f32 \<Rightarrow> f32" where
  "f32_neg (Fin a) = Fin (- a)"
| "f32_neg PInf = NInf"
| "f32_neg NInf = PInf"
| "f32_neg NaN = NaN"

text \<open>The conversion \<^verbatim>\<open>(float)n\<close> of an integer.\<close>

definition f32_of_int :: "int \<Rightarrow> f32" where
  "f32_of_int n = f32_round (of_int n)"

fun f32_add :: "f32 \<Rightarrow> f32 \<Rightarrow> f32" where
  "f32_add NaN y = NaN"
| "f32_add x NaN = NaN"
| "f32_add (Fin a) (Fin b) = f32_round (a + b)"
| "f32_add (Fin a) y = y"
| "f32_add x (Fin b) = x"
| "f32_add x y = (if x = y then x else NaN)"

fun f32_mul :: "f32 \<Rightarrow> f32 \<Rightarrow> f32" where
  "f32_mul NaN y = NaN"
| "f32_mul x NaN = NaN"
| "f32_mul (Fin a) (Fin b) = f32_round (a * b)"
| "f32_mul (Fin a) y = (if a = 0 then NaN else if 0 < a then y else f32_neg y)"
| "f32_mul x (Fin b) = (if b = 0 then NaN else if 0 < b then x else f32_neg x)"
| "f32_mul x y = (if x = y then PInf else NInf)"

fun f32_div :: "f32 \<Rightarrow> f32 \<Rightarrow> f32" where
  "f32_div NaN y = NaN"
| "f32_div x NaN = NaN"
| "f32_div (Fin a) (Fin b) =
     (if b = 0 then (if a = 0 then NaN else if 0 < a then PInf else NInf)
      else f32_round (a / b))"
| "f32_div (Fin a) y = Fin 0"
| "f32_div x (Fin b) = (if 0 \<le> b then x else f32_neg x)"
| "f32_div x y = NaN"

section \<open>The frame converter\<close>

text \<open>
  The body of the conversion loop of \<^verbatim>\<open>AudioInputCallback\<close>:
  \<^verbatim>\<open>leftSample = (float)interleavedSamples[i * 2] / 32768.0f\<close>, the same for the right
  sample at \<^verbatim>\<open>i * 2 + 1\<close>, and \<^verbatim>\<open>(leftSample + rightSample) * 0.5f\<close>.
\<close>

definition mono_sample :: "int16_t \<Rightarrow> int16_t \<Rightarrow> f32" where
  "mono_sample l r =
     (let leftSample = f32_div (f32_of_int (sint l)) (Fin 32768);
          rightSample = f32_div (f32_of_int (sint r)) (Fin 32768)
      in f32_mul (f32_add leftSample rightSample) (Fin (1 / 2)))"

text \<open>
  The loop \<^verbatim>\<open>for (UInt32 i = 0; i < inNumberFrames; ++i)\<close>. The counter and the indices
  \<^verbatim>\<open>i * 2\<close> and \<^verbatim>\<open>i * 2 + 1\<close> are 32-bit and wrap around. \<open>interleavedSamples\<close> is
  the memory behind the data pointer, as \<^verbatim>\<open>int16_t\<close> values; a read past its end is
  undefined in C++, and the model stops there with \<open>None\<close>.
\<close>

function convert_loop :: "int16_t list \<Rightarrow> UInt32 \<Rightarrow> UInt32 \<Rightarrow> f32 list \<Rightarrow> f32 list option" where
  "convert_loop interleavedSamples inNumberFrames i data =
     (if i < inNumberFrames then
        if unat (i * 2) < length interleavedSamples \<and> unat (i * 2 + 1) < length interleavedSamples
        then convert_loop interleavedSamples inNumberFrames (i + 1)
               (data[unat i := mono_sample (interleavedSamples ! unat (i * 2))
                                           (interleavedSamples ! unat (i * 2 + 1))])
        else None
      else Some data)"
  by pat_completeness auto
termination
proof (relation "measure (\<lambda>(s, n, i, d). unat n - unat i)")
  show "wf (measure (\<lambda>(s :: int16_t list, n :: UInt32, i :: UInt32, d :: f32 list). unat n - unat i))"
    by simp
next
  fix interleavedSamples :: "int16_t list" and inNumberFrames i :: UInt32 and data :: "f32 list"
  assume lt: "i < inNumberFrames"
  then have lt': "unat i < unat inNumberFrames"
    by (simp add: word_less_nat_alt)
  have "unat inNumberFrames < 2 ^ LENGTH(32)"
    by (rule unsigned_less)
  with lt' have "unat i + unat (1 :: UInt32) < 2 ^ LENGTH(32)"
    by simp
  then have "unat (i + 1) = unat i + unat (1 :: UInt32)"
    by (simp only: unat_add_lem)
  then have "unat (i + 1) = Suc (unat i)"
    by simp
  moreover note lt'
  ultimately show "((interleavedSamples, inNumberFrames, i + 1,
        data[unat i := mono_sample (interleavedSamples ! unat (i * 2))
                                   (interleavedSamples ! unat (i * 2 + 1))]),
       (interleavedSamples, inNumberFrames, i, data))
      \<in> measure (\<lambda>(s, n, i, d). unat n - unat i)"
    by simp
qed

text \<open>
  \<^verbatim>\<open>dataToSend->data.resize(inNumberFrames)\<close> on the new, empty vector gives
  \<^verbatim>\<open>inNumberFrames\<close> zeros, which the loop then overwrites.
\<close>

definition mix_to_mono :: "int16_t list \<Rightarrow> UInt32 \<Rightarrow> f32 list option" where
  "mix_to_mono interleavedSamples inNumberFrames =
     convert_loop interleavedSamples inNumberFrames 0 (replicate (unat inNumberFrames) (Fin 0))"

section \<open>The render buffer\<close>

text \<open>
  \<^verbatim>\<open>AudioBufferList\<close> as \<^verbatim>\<open>AllocateAudioBufferList\<close> lays it out: the structure has room
  for one \<^verbatim>\<open>AudioBuffer\<close>, \<^verbatim>\<open>mBuffers[0]\<close>.
\<close>

record AudioBuffer =
  mNumberChannels :: UInt32
  mDataByteSize :: UInt32
  mData :: pointer

record AudioBufferList =
  mNumberBuffers :: UInt32
  mBuffers_0 :: AudioBuffer

datatype napi_status = napi_ok | napi_queue_full | napi_closing | napi_generic_failure

datatype au_property =
    EnableIO_Input | EnableIO_Output | CurrentDevice | StreamFormat
  | SetInputCallback | ClearInputCallback

datatype js_value =
    JsUndefined | JsNull | JsBoolean bool | JsNumber int | JsString string | JsFunction nat

text \<open>
  What a run does to the world outside the four globals, in the order in which it does it:
  the two guards of the render callback, the calls to \<^verbatim>\<open>malloc\<close> and \<^verbatim>\<open>free\<close> with the
  block's address, the calls on the audio unit and on the thread-safe function. A read
  outside an allocated structure is \<open>OutOfBounds\<close>: what follows it is undefined.
  Console output is not part of the model.
\<close>

datatype event =
    CheckBus | CheckSession
  | Malloc nat | Free nat | OutOfBounds
  | AudioUnitRender
  | NewAudioData | DeleteAudioData
  | NonBlockingCall nat "f32 list" napi_status
  | DeviceLookup | FindComponent
  | InstanceNew pointer | InstanceDispose nat
  | SetProperty nat au_property | GetProperty nat au_property
  | Initialize nat | Uninitialize nat
  | OutputUnitStart nat | OutputUnitStop nat
  | TsfNew js_value pointer | TsfAcquire nat | TsfRelease nat

text \<open>
  What the callback cannot decide: the two results of \<^verbatim>\<open>malloc\<close>, the status of
  \<^verbatim>\<open>AudioUnitRender\<close>, the buffer list and the samples as the render leaves them, whether
  \<^verbatim>\<open>resize\<close> finds memory, and the status of \<^verbatim>\<open>NonBlockingCall\<close>.
\<close>

record render_env =
  list_malloc :: pointer
  data_malloc :: pointer
  render_status :: OSStatus
  rendered :: AudioBufferList
  rendered_samples :: "int16_t list"
  resize_ok :: bool
  tsf_status :: napi_status

definition AllocateAudioBufferList ::
    "render_env \<Rightarrow> UInt32 \<Rightarrow> UInt32 \<Rightarrow> (nat \<times> AudioBufferList) option \<times> event list" where
  "AllocateAudioBufferList env numChannels totalDataByteSize =
     (case list_malloc env of
        None \<Rightarrow> (None, [])
      | Some bufferList \<Rightarrow>
          (case data_malloc env of
             None \<Rightarrow> (None, [Malloc bufferList, Free bufferList])
           | Some d \<Rightarrow>
               (Some (bufferList,
                  \<lparr>mNumberBuffers = 1,
                   mBuffers_0 = \<lparr>mNumberChannels = numChannels,
                                 mDataByteSize = totalDataByteSize, mData = Some d\<rparr>\<rparr>),
                [Malloc bufferList, Malloc d])))"

text \<open>
  The loop of \<^verbatim>\<open>DeallocateAudioBufferList\<close> over \<^verbatim>\<open>mNumberBuffers\<close> entries: entry 0 is
  in the structure, any other index is outside it.
\<close>

function free_buffers :: "AudioBufferList \<Rightarrow> UInt32 \<Rightarrow> event list" where
  "free_buffers bufferList i =
     (if i < mNumberBuffers bufferList then
        if i = 0 then
          (case mData (mBuffers_0 bufferList) of None \<Rightarrow> [] | Some d \<Rightarrow> [Free d])
            @ free_buffers bufferList (i + 1)
        else [OutOfBounds]
      else [])"
  by pat_completeness auto
termination
proof (relation "measure (\<lambda>(b, i). unat (mNumberBuffers b) - unat i)")
  show "wf (measure (\<lambda>(b :: AudioBufferList, i :: UInt32). unat (mNumberBuffers b) - unat i))"
    by simp
next
  fix bufferList :: AudioBufferList and i :: UInt32
  assume lt: "i < mNumberBuffers bufferList" and "i = 0"
  then have "unat i < unat (mNumberBuffers bufferList)"
    by (simp add: word_less_nat_alt)
  moreover have "unat (i + 1) = Suc (unat i)"
    using \<open>i = 0\<close> by simp
  ultimately show "((bufferList, i + 1), (bufferList, i))
      \<in> measure (\<lambda>(b, i). unat (mNumberBuffers b) - unat i)"
    by simp
qed

definition DeallocateAudioBufferList :: "nat \<Rightarrow> AudioBufferList \<Rightarrow> event list" where
  "DeallocateAudioBufferList p bufferList = free_buffers bufferList 0 @ [Free p]"

section \<open>The capture session\<close>

text \<open>The four globals \<^verbatim>\<open>g_isCapturing\<close>, \<^verbatim>\<open>g_audioUnit\<close>, \<^verbatim>\<open>g_targetDeviceID\<close>, \<^verbatim>\<open>g_tsf\<close>.\<close>

record capture_state =
  g_isCapturing :: bool
  g_audioUnit :: pointer
  g_targetDeviceID :: AudioDeviceID
  g_tsf :: pointer

definition initial_state :: capture_state where
  "initial_state =
     \<lparr>g_isCapturing = False, g_audioUnit = None,
      g_targetDeviceID = kAudioDeviceUnknown, g_tsf = None\<rparr>"

section \<open>The render callback\<close>

text \<open>
  A return after \<^verbatim>\<open>DeallocateAudioBufferList\<close>: the status, unless the deallocation read
  outside the structure.
\<close>

definition leave :: "OSStatus \<Rightarrow> event list \<Rightarrow> event list \<Rightarrow> OSStatus option \<times> event list" where
  "leave status done freed =
     (if OutOfBounds \<in> set freed then None else Some status, done @ freed)"

text \<open>
  \<^verbatim>\<open>AudioInputCallback\<close>. The result is the status returned (\<open>None\<close> where the behaviour is
  undefined) and the events of the run.
\<close>

definition AudioInputCallback ::
    "capture_state \<Rightarrow> render_env \<Rightarrow> UInt32 \<Rightarrow> UInt32 \<Rightarrow> OSStatus option \<times> event list" where
  "AudioInputCallback s env inBusNumber inNumberFrames =
     (if inBusNumber \<noteq> 1 then (Some noErr, [CheckBus])
      else case (g_isCapturing s, g_tsf s) of
        (False, _) \<Rightarrow> (Some noErr, [CheckBus, CheckSession])
      | (True, None) \<Rightarrow> (Some noErr, [CheckBus, CheckSession])
      | (True, Some tsf) \<Rightarrow>
        (let numChannels = 2; bytesPerSample = 2;
             bytesPerFrame = numChannels * bytesPerSample;
             totalDataByteSize = inNumberFrames * bytesPerFrame
         in case AllocateAudioBufferList env numChannels totalDataByteSize of
           (None, ev) \<Rightarrow> (Some (- 1), [CheckBus, CheckSession] @ ev)
         | (Some (localBufferList, allocated), ev) \<Rightarrow>
             (let status = render_status env;
                  bl = rendered env;
                  ev1 = [CheckBus, CheckSession] @ ev @ [AudioUnitRender];
                  freed = DeallocateAudioBufferList localBufferList bl
              in if status \<noteq> noErr then leave status ev1 freed
                 else if mNumberBuffers bl \<noteq> 1 \<or> mData (mBuffers_0 bl) = None
                   then leave (- 1) ev1 freed
                 else if mDataByteSize (mBuffers_0 bl) < totalDataByteSize
                   then leave (- 1) ev1 freed
                 else if \<not> resize_ok env
                   then leave (- 1) (ev1 @ [NewAudioData, DeleteAudioData]) freed
                 else (case mix_to_mono (rendered_samples env) inNumberFrames of
                     None \<Rightarrow> (None, ev1 @ [NewAudioData, OutOfBounds])
                   | Some data \<Rightarrow>
                       if tsf_status env \<noteq> napi_ok
                       then leave noErr
                              (ev1 @ [NewAudioData, NonBlockingCall tsf data (tsf_status env),
                                      DeleteAudioData]) freed
                       else leave noErr
                              (ev1 @ [NewAudioData, NonBlockingCall tsf data napi_ok]) freed))))"

section \<open>The device registry\<close>

text \<open>
  What CoreAudio answers: the status of the size query, the devices (the size reported is
  four bytes for each), the status of the list query, and for each device the status and
  the string of its name and of its UID (\<open>None\<close> for a null \<^verbatim>\<open>CFStringRef\<close>).
\<close>

record device_env =
  size_status :: OSStatus
  device_list :: "AudioDeviceID list"
  list_status :: OSStatus
  device_name :: "AudioDeviceID \<Rightarrow> OSStatus \<times> string option"
  device_uid :: "AudioDeviceID \<Rightarrow> OSStatus \<times> string option"

fun find_device_uid ::
    "(AudioDeviceID \<Rightarrow> OSStatus \<times> string option) \<Rightarrow> string \<Rightarrow> AudioDeviceID list
      \<Rightarrow> AudioDeviceID option" where
  "find_device_uid uid_of uid [] = None"
| "find_device_uid uid_of uid (d # ds) =
     (case uid_of d of
        (status, Some currentUID) \<Rightarrow>
          if status = noErr \<and> currentUID = uid then Some d else find_device_uid uid_of uid ds
      | (status, None) \<Rightarrow> find_device_uid uid_of uid ds)"

text \<open>\<^verbatim>\<open>GetAudioDeviceIDFromUID\<close>: the status and the value left in \<^verbatim>\<open>deviceID\<close>.\<close>

definition GetAudioDeviceIDFromUID ::
    "'a device_env_scheme \<Rightarrow> string \<Rightarrow> OSStatus \<times> AudioDeviceID" where
  "GetAudioDeviceIDFromUID env uid =
     (if size_status env \<noteq> noErr \<or> device_list env = []
        then (size_status env, kAudioDeviceUnknown)
      else if list_status env \<noteq> noErr then (list_status env, kAudioDeviceUnknown)
      else case find_device_uid (device_uid env) uid (device_list env) of
             Some d \<Rightarrow> (noErr, d)
           | None \<Rightarrow> (kAudioHardwareBadDeviceError, kAudioDeviceUnknown))"

fun device_entries ::
    "(AudioDeviceID \<Rightarrow> OSStatus \<times> string option) \<Rightarrow> (AudioDeviceID \<Rightarrow> OSStatus \<times> string option)
      \<Rightarrow> AudioDeviceID list \<Rightarrow> (string \<times> string) list" where
  "device_entries name_of uid_of [] = []"
| "device_entries name_of uid_of (d # ds) =
     (case name_of d of
        (status, None) \<Rightarrow> device_entries name_of uid_of ds
      | (status, Some deviceName) \<Rightarrow>
          if status \<noteq> noErr then device_entries name_of uid_of ds
          else (case uid_of d of
                  (status', None) \<Rightarrow> device_entries name_of uid_of ds
                | (status', Some deviceUID) \<Rightarrow>
                    if status' \<noteq> noErr then device_entries name_of uid_of ds
                    else (deviceUID, deviceName) # device_entries name_of uid_of ds))"

datatype capture_error =
    ArgumentTypeError | AlreadyCapturing | ThreadSafeFunctionExists | DeviceNotFound
  | ComponentNotFound | CreateUnitFailed OSStatus | EnableInputFailed OSStatus
  | SetDeviceFailed OSStatus | SetFormatFailed OSStatus | SetCallbackFailed OSStatus
  | InitializeFailed OSStatus | CreateThreadSafeFunctionFailed | StartUnitFailed OSStatus
  | DeviceListSizeError OSStatus | DeviceListError OSStatus

text \<open>
  The exported operations return the value handed to JavaScript, or \<open>Inl\<close> the exception
  thrown, then the globals, then the events. \<^verbatim>\<open>ListDevices\<close> gives the pairs of id and
  name.
\<close>

definition ListDevices ::
    "'a device_env_scheme \<Rightarrow> capture_state
      \<Rightarrow> (capture_error + (string \<times> string) list) \<times> capture_state \<times> event list" where
  "ListDevices env s =
     (if size_status env \<noteq> noErr \<or> device_list env = []
        then (Inl (DeviceListSizeError (size_status env)), s, [])
      else if list_status env \<noteq> noErr then (Inl (DeviceListError (list_status env)), s, [])
      else (Inr (device_entries (device_name env) (device_uid env) (device_list env)), s, []))"

section \<open>Starting and stopping\<close>

fun IsString :: "js_value \<Rightarrow> bool" where
  "IsString (JsString x) = True"
| "IsString v = False"

fun IsFunction :: "js_value \<Rightarrow> bool" where
  "IsFunction (JsFunction f) = True"
| "IsFunction v = False"

fun Utf8Value :: "js_value \<Rightarrow> string" where
  "Utf8Value (JsString x) = x"
| "Utf8Value v = []"

text \<open>\<^verbatim>\<open>info[i]\<close>: an argument that was not passed is an empty value.\<close>

definition arg :: "js_value list \<Rightarrow> nat \<Rightarrow> js_value" where
  "arg info i = (if i < length info then info ! i else JsUndefined)"

text \<open>
  What \<^verbatim>\<open>StartCapture\<close> cannot decide, beyond the device registry: whether the HAL output
  component is found, the status and the handle of \<^verbatim>\<open>AudioComponentInstanceNew\<close>, the
  status of each configuration call, the thread-safe function created (\<open>None\<close> if the
  creation fails), and the status of \<^verbatim>\<open>AudioOutputUnitStart\<close>.
\<close>

record start_env = device_env +
  component_found :: bool
  instance_new :: "OSStatus \<times> pointer"
  enable_input_status :: OSStatus
  disable_output_status :: OSStatus
  set_device_status :: OSStatus
  set_format_status :: OSStatus
  get_format_status :: OSStatus
  set_callback_status :: OSStatus
  initialize_status :: OSStatus
  tsf_new :: pointer
  start_status :: OSStatus

definition StartCapture ::
    "start_env \<Rightarrow> js_value list \<Rightarrow> capture_state
      \<Rightarrow> (capture_error + bool) \<times> capture_state \<times> event list" where
  "StartCapture env info s =
     (if length info < 2 \<or> \<not> IsString (arg info 0) \<or> \<not> IsFunction (arg info 1)
        then (Inl ArgumentTypeError, s, [])
      else if g_isCapturing s then (Inl AlreadyCapturing, s, [])
      else if g_tsf s \<noteq> None then (Inl ThreadSafeFunctionExists, s, [])
      else
        let targetUID = Utf8Value (arg info 0);
            jsDataCallback = arg info 1;
            (status, deviceID) = GetAudioDeviceIDFromUID env targetUID;
            s1 = s\<lparr>g_targetDeviceID := deviceID\<rparr>;
            e1 = [DeviceLookup]
        in if status \<noteq> noErr \<or> deviceID = kAudioDeviceUnknown
             then (Inl DeviceNotFound, s1, e1)
           else if \<not> component_found env
             then (Inl ComponentNotFound, s1, e1 @ [FindComponent])
           else (case instance_new env of
             (status, None) \<Rightarrow>
               (Inl (CreateUnitFailed status), s1\<lparr>g_audioUnit := None\<rparr>,
                e1 @ [FindComponent, InstanceNew None])
           | (status, Some u) \<Rightarrow>
               (let s2 = s1\<lparr>g_audioUnit := Some u\<rparr>;
                    e2 = e1 @ [FindComponent, InstanceNew (Some u)];
                    e3 = e2 @ [SetProperty u EnableIO_Input];
                    e4 = e3 @ [SetProperty u EnableIO_Output, SetProperty u CurrentDevice];
                    e5 = e4 @ [SetProperty u StreamFormat];
                    e6 = e5 @ [GetProperty u StreamFormat, SetProperty u SetInputCallback];
                    e7 = e6 @ [Initialize u]
                in if status \<noteq> noErr
                     then (Inl (CreateUnitFailed status), s2\<lparr>g_audioUnit := None\<rparr>, e2)
                   else if enable_input_status env \<noteq> noErr
                     then (Inl (EnableInputFailed (enable_input_status env)),
                           s2\<lparr>g_audioUnit := None\<rparr>, e3 @ [InstanceDispose u])
                   else if set_device_status env \<noteq> noErr
                     then (Inl (SetDeviceFailed (set_device_status env)),
                           s2\<lparr>g_audioUnit := None\<rparr>, e4 @ [InstanceDispose u])
                   else if set_format_status env \<noteq> noErr
                     then (Inl (SetFormatFailed (set_format_status env)),
                           s2\<lparr>g_audioUnit := None\<rparr>, e5 @ [InstanceDispose u])
                   else if set_callback_status env \<noteq> noErr
                     then (Inl (SetCallbackFailed (set_callback_status env)),
                           s2\<lparr>g_audioUnit := None\<rparr>, e6 @ [InstanceDispose u])
                   else if initialize_status env \<noteq> noErr
                     then (Inl (InitializeFailed (initialize_status env)),
                           s2\<lparr>g_audioUnit := None\<rparr>, e7 @ [InstanceDispose u])
                   else (case tsf_new env of
                     None \<Rightarrow>
                       (Inl CreateThreadSafeFunctionFailed, s2\<lparr>g_audioUnit := None\<rparr>,
                        e7 @ [TsfNew jsDataCallback None, Uninitialize u, InstanceDispose u])
                   | Some t \<Rightarrow>
                       (let s3 = s2\<lparr>g_tsf := Some t\<rparr>;
                            e8 = e7 @ [TsfNew jsDataCallback (Some t), TsfAcquire t,
                                       OutputUnitStart u]
                        in if start_status env \<noteq> noErr
                             then (Inl (StartUnitFailed (start_status env)),
                                   s3\<lparr>g_tsf := None, g_audioUnit := None\<rparr>,
                                   e8 @ [TsfRelease t, Uninitialize u, InstanceDispose u])
                           else (Inr True, s3\<lparr>g_isCapturing := True\<rparr>, e8))))))"

text \<open>
  The statuses of the teardown calls of \<^verbatim>\<open>StopCapture\<close>. The code prints those that are
  not \<^verbatim>\<open>noErr\<close> and does nothing else with them.
\<close>

record stop_env =
  unit_stop_status :: OSStatus
  uninitialize_status :: OSStatus
  clear_callback_status :: OSStatus
  dispose_status :: OSStatus
  tsf_release_status :: napi_status

fun teardown_unit :: "capture_state \<Rightarrow> capture_state \<times> event list" where
  "teardown_unit s =
     (case g_audioUnit s of
        Some u \<Rightarrow>
          (s\<lparr>g_audioUnit := None\<rparr>,
           [OutputUnitStop u, Uninitialize u, SetProperty u ClearInputCallback, InstanceDispose u])
      | None \<Rightarrow> (s, []))"

fun release_tsf :: "capture_state \<Rightarrow> capture_state \<times> event list" where
  "release_tsf s =
     (case g_tsf s of
        Some t \<Rightarrow> (s\<lparr>g_tsf := None\<rparr>, [TsfRelease t])
      | None \<Rightarrow> (s, []))"

definition StopCapture :: "stop_env \<Rightarrow> capture_state \<Rightarrow> bool \<times> capture_state \<times> event list" where
  "StopCapture env s =
     (if \<not> g_isCapturing s then
        (case release_tsf s of (s', ev) \<Rightarrow> (True, s', ev))
      else
        (case teardown_unit s of (s1, ev1) \<Rightarrow>
           (case release_tsf s1 of (s2, ev2) \<Rightarrow>
              (True, s2\<lparr>g_targetDeviceID := kAudioDeviceUnknown, g_isCapturing := False\<rparr>,
               ev1 @ ev2))))"

text \<open>
  The states of the globals between calls: the initial values, and what an exported
  operation leaves, whatever the arguments and the answers of the system.
\<close>

inductive reachable :: "capture_state \<Rightarrow> bool" where
  reachable_initial: "reachable initial_state"
| reachable_list:
    "reachable s \<Longrightarrow> ListDevices (denv :: device_env) s = (listed, s', ev) \<Longrightarrow> reachable s'"
| reachable_start:
    "reachable s \<Longrightarrow> StartCapture env info s = (started, s', ev) \<Longrightarrow> reachable s'"
| reachable_stop:
    "reachable s \<Longrightarrow> StopCapture senv s = (stopped, s', ev) \<Longrightarrow> reachable s'"

section \<open>Example runs\<close>

text \<open>
  One microphone with UID \<open>mic\<close> and device id 42, and a system on which every call of
  \<^verbatim>\<open>StartCapture\<close> succeeds: the session that results has unit 1 and thread-safe
  function 7.
\<close>

definition one_device :: "AudioDeviceID \<Rightarrow> OSStatus \<times> string option" where
  "one_device d = (if d = 42 then (noErr, Some ''mic'') else (kAudioHardwareBadDeviceError, None))"

definition start_ok :: start_env where
  "start_ok =
     \<lparr>size_status = noErr, device_list = [42], list_status = noErr,
      device_name = one_device, device_uid = one_device,
      component_found = True, instance_new = (noErr, Some 1),
      enable_input_status = noErr, disable_output_status = noErr,
      set_device_status = noErr, set_format_status = noErr, get_format_status = noErr,
      set_callback_status = noErr, initialize_status = noErr,
      tsf_new = Some 7, start_status = noErr\<rparr>"

definition stop_ok :: stop_env where
  "stop_ok =
     \<lparr>unit_stop_status = noErr, uninitialize_status = noErr, clear_callback_status = noErr,
      dispose_status = noErr, tsf_release_status = napi_ok\<rparr>"

definition mic_args :: "js_value list" where
  "mic_args = [JsString ''mic'', JsFunction 0]"

definition capturing_state :: capture_state where
  "capturing_state =
     \<lparr>g_isCapturing = True, g_audioUnit = Some 1, g_targetDeviceID = 42, g_tsf = Some 7\<rparr>"

text \<open>
  A render of one frame into the list at address 100 with its data at address 200. The
  render succeeds and leaves the two samples 16384 and 16384; \<open>render_one reported p\<close> is
  the run in which it reports \<open>reported\<close> bytes and leaves the data pointer \<open>p\<close>.
\<close>

definition render_one :: "UInt32 \<Rightarrow> pointer \<Rightarrow> render_env" where
  "render_one reported p =
     \<lparr>list_malloc = Some 100, data_malloc = Some 200, render_status = noErr,
      rendered = \<lparr>mNumberBuffers = 1,
                  mBuffers_0 = \<lparr>mNumberChannels = 2, mDataByteSize = reported, mData = p\<rparr>\<rparr>,
      rendered_samples = [16384, 16384], resize_ok = True, tsf_status = napi_ok\<rparr>"

text \<open>The same render, but it leaves \<^verbatim>\<open>mNumberBuffers\<close> zero.\<close>

definition render_none :: "UInt32 \<Rightarrow> pointer \<Rightarrow> render_env" where
  "render_none reported p =
     (render_one reported p)
       \<lparr>rendered := \<lparr>mNumberBuffers = 0,
                     mBuffers_0 = \<lparr>mNumberChannels = 2, mDataByteSize = reported,
                                   mData = p\<rparr>\<rparr>\<rparr>"

section \<open>Exactness of the arithmetic of the converter\<close>

text \<open>
  The exponent found by \<open>binade\<close> is not above the true one: \<open>2 powi binade x\<close> is at
  most \<open>\<bar>x\<bar>\<close>.
\<close>

lemma binade_le:
  assumes "x \<noteq> 0"
  shows "2 powi (binade x) \<le> \<bar>x\<bar>"
proof -
  obtain p q where pq: "quotient_of \<bar>x\<bar> = (p, q)"
    by (cases "quotient_of \<bar>x\<bar>")
  have q: "0 < q"
    using pq by (rule quotient_of_denom_pos)
  have x: "\<bar>x\<bar> = of_int p / of_int q"
    using pq by (rule quotient_of_div)
  have p: "0 < p"
  proof (rule ccontr)
    assume "\<not> 0 < p"
    then have "of_int p / of_int q \<le> (0::rat)"
      using q by (simp add: divide_le_0_iff)
    with x assms show False by simp
  qed
  define a where "a = bitlen p"
  define b where "b = bitlen q"
  have a1: "1 \<le> a"
    using p bitlen_eq_zero_iff[of p] bitlen_nonneg[of p] by (simp add: a_def)
  have b1: "1 \<le> b"
    using q bitlen_eq_zero_iff[of q] bitlen_nonneg[of q] by (simp add: b_def)
  have pl: "(2::rat) powi (a - 1) \<le> of_int p"
  proof -
    have "2 ^ nat (a - 1) \<le> p"
      using bitlen_bounds[OF p] by (simp add: a_def)
    then have "of_int (2 ^ nat (a - 1)) \<le> (of_int p :: rat)"
      by (simp only: of_int_le_iff)
    then show ?thesis
      using a1 by (simp add: power_int_def)
  qed
  have qu: "of_int q \<le> (2::rat) powi b"
  proof -
    have "q < 2 ^ nat b"
      using bitlen_bounds[OF q] by (simp add: b_def)
    then have "of_int q < (of_int (2 ^ nat b) :: rat)"
      by (simp only: of_int_less_iff)
    then show ?thesis
      using b1 by (simp add: power_int_def)
  qed
  have low: "(2::rat) powi (a - b - 1) \<le> \<bar>x\<bar>"
  proof -
    have "(2::rat) powi (a - b - 1) = 2 powi (a - 1) / 2 powi b"
      by (simp add: power_int_diff)
    also have "\<dots> \<le> of_int p / 2 powi b"
      using pl by (simp add: divide_right_mono)
    also have "\<dots> \<le> of_int p / of_int q"
      using qu p q by (simp add: divide_left_mono)
    finally show ?thesis
      by (simp add: x)
  qed
  show ?thesis
    using low pq by (simp add: binade_def Let_def a_def b_def)
qed

lemma round_half_even_of_int: "round_half_even (of_int m) = m"
  by (simp add: round_half_even_def)

text \<open>
  A value \<open>m * 2 powi k\<close> with \<open>\<bar>m\<bar> < 2 ^ 24\<close>, \<open>k\<close> not below \<open>-149\<close> and a magnitude
  under \<open>2 powi 128\<close> is a binary32 value: rounding leaves it as it is.
\<close>

lemma f32_round_exact:
  assumes x: "x = of_int m * 2 powi k" and m: "\<bar>m\<bar> < 2 ^ 24" and k: "- 149 \<le> k"
    and r: "\<bar>x\<bar> < 2 powi 128"
  shows "f32_round x = Fin x"
proof (cases "x = 0")
  case True
  then show ?thesis
    by (simp add: f32_round_def)
next
  case False
  define e where "e = max (binade x) (- 126)"
  define q :: rat where "q = 2 powi (e - 23)"
  have "2 powi (binade x) \<le> \<bar>x\<bar>"
    using False by (rule binade_le)
  also have "\<bar>x\<bar> = of_int \<bar>m\<bar> * 2 powi k"
    by (simp add: x abs_mult)
  also have "\<dots> < 2 ^ 24 * 2 powi k"
  proof -
    have "(of_int \<bar>m\<bar> :: rat) < of_int (2 ^ 24)"
      using m by (simp only: of_int_less_iff)
    then show ?thesis by simp
  qed
  also have "\<dots> = 2 powi (24 + k)"
    by (simp add: power_int_add)
  finally have lt: "(2::rat) powi (binade x) < 2 powi (24 + k)" .
  have "binade x < 24 + k"
  proof (rule ccontr)
    assume "\<not> binade x < 24 + k"
    then have "(2::rat) powi (24 + k) \<le> 2 powi (binade x)"
      by (intro power_int_increasing) simp_all
    with lt show False by simp
  qed
  then have ek: "e - 23 \<le> k"
    using k by (simp add: e_def)
  have q0: "q \<noteq> 0"
    by (simp add: q_def)
  have "x / q = of_int m * 2 powi (k - (e - 23))"
    by (simp add: x q_def power_int_diff)
  also have "\<dots> = of_int (m * 2 ^ nat (k - (e - 23)))"
    using ek by (simp add: power_int_def)
  finally have xq: "x / q = of_int (m * 2 ^ nat (k - (e - 23)))" .
  have "of_int (round_half_even (x / q)) * q = x / q * q"
    by (simp only: xq round_half_even_of_int)
  also have "\<dots> = x"
    using q0 by simp
  finally have "of_int (round_half_even (x / q)) * q = x" .
  then show ?thesis
    using False r by (simp add: f32_round_def Let_def e_def[symmetric] q_def[symmetric])
qed

lemma f32_round_scaled:
  assumes m: "\<bar>m\<bar> \<le> 65536" and j: "j \<le> 16"
  shows "f32_round (of_int m / 2 ^ j) = Fin (of_int m / 2 ^ j)"
proof (rule f32_round_exact[where m = m and k = "- int j"])
  show "rat_of_int m / 2 ^ j = rat_of_int m * 2 powi (- int j)"
    by (simp add: power_int_minus field_simps)
  show "\<bar>m\<bar> < 2 ^ 24"
    using m by simp
  show "- 149 \<le> - int j"
    using j by simp
  have "\<bar>rat_of_int m / 2 ^ j\<bar> = rat_of_int \<bar>m\<bar> / 2 ^ j"
    by simp
  also have "\<dots> \<le> rat_of_int \<bar>m\<bar>"
    by (simp add: divide_le_eq_1 field_simps mult_le_cancel_left1)
  also have "\<dots> \<le> rat_of_int 65536"
    using m by (simp only: of_int_le_iff)
  also have "\<dots> < 2 powi 128"
    by simp
  finally show "\<bar>rat_of_int m / 2 ^ j\<bar> < 2 powi 128" .
qed

lemma sint16_bounds: "- 32768 \<le> sint (w :: int16_t) \<and> sint w \<le> 32767"
  using sint_ge[of w] sint_lt[of w] by simp

text \<open>
  No operation of the loop body rounds: the sample computed is the exact value of
  \<open>(l / 32768 + r / 32768) * 0.5\<close>.
\<close>

lemma mono_sample_exact:
  "mono_sample l r = Fin ((of_int (sint l) / 32768 + of_int (sint r) / 32768) * (1 / 2))"
proof -
  define a :: rat where "a = of_int (sint l)"
  define b :: rat where "b = of_int (sint r)"
  have bl: "\<bar>sint l\<bar> \<le> 65536" and br: "\<bar>sint r\<bar> \<le> 65536"
    and bs: "\<bar>sint l + sint r\<bar> \<le> 65536"
    using sint16_bounds[of l] sint16_bounds[of r] by (auto simp: abs_le_iff)
  have ab: "a + b = of_int (sint l + sint r)"
    by (simp only: a_def b_def of_int_add)
  have ra: "f32_round (a / 2 ^ j) = Fin (a / 2 ^ j)" if "j \<le> 16" for j
    unfolding a_def using bl that by (rule f32_round_scaled)
  have rb: "f32_round (b / 2 ^ j) = Fin (b / 2 ^ j)" if "j \<le> 16" for j
    unfolding b_def using br that by (rule f32_round_scaled)
  have rs: "f32_round ((a + b) / 2 ^ j) = Fin ((a + b) / 2 ^ j)" if "j \<le> 16" for j
    unfolding ab using bs that by (rule f32_round_scaled)
  have ca: "f32_of_int (sint l) = Fin a"
    using ra[of 0] by (simp add: f32_of_int_def a_def)
  have cb: "f32_of_int (sint r) = Fin b"
    using rb[of 0] by (simp add: f32_of_int_def b_def)
  have da: "f32_div (Fin a) (Fin 32768) = Fin (a / 32768)"
    using ra[of 15] by simp
  have db: "f32_div (Fin b) (Fin 32768) = Fin (b / 32768)"
    using rb[of 15] by simp
  have s: "f32_add (Fin (a / 32768)) (Fin (b / 32768)) = Fin (a / 32768 + b / 32768)"
    using rs[of 15] by (simp add: add_divide_distrib)
  have h: "f32_mul (Fin (a / 32768 + b / 32768)) (Fin (1 / 2))
      = Fin ((a / 32768 + b / 32768) * (1 / 2))"
    using rs[of 16] by (simp add: add_divide_distrib)
  have "mono_sample l r =
      f32_mul (f32_add (f32_div (f32_of_int (sint l)) (Fin 32768))
                       (f32_div (f32_of_int (sint r)) (Fin 32768))) (Fin (1 / 2))"
    by (simp only: mono_sample_def Let_def)
  also have "\<dots> = Fin ((a / 32768 + b / 32768) * (1 / 2))"
    by (simp only: ca cb da db s h)
  finally show ?thesis
    by (simp only: a_def b_def)
qed

section \<open>The conversion loop\<close>

text \<open>
  From counter \<open>i\<close> on, the loop keeps the samples written so far and appends one sample
  for each remaining frame, when the buffer holds the frames and its size in bytes fits 32
  bits (no index wraps around).
\<close>

lemma convert_loop_result:
  assumes "2 * unat n \<le> length raw" and "2 * length raw < 2 ^ 32" and "length data = unat n"
  shows "convert_loop raw n i data =
    Some (take (unat i) data
          @ map (\<lambda>j. mono_sample (raw ! (2 * j)) (raw ! (2 * j + 1))) [unat i..<unat n])"
  using assms
proof (induction raw n i data rule: convert_loop.induct)
  case (1 raw n i data)
  show ?case
  proof (cases "i < n")
    case False
    then have "unat n \<le> unat i"
      by (simp add: word_less_nat_alt)
    with False "1.prems" show ?thesis
      by (subst convert_loop.simps) simp
  next
    case True
    then have lt: "unat i < unat n"
      by (simp add: word_less_nat_alt)
    have i2: "unat (i * 2) = 2 * unat i"
    proof -
      have "unat i * unat (2 :: UInt32) < 2 ^ LENGTH(32)"
        using lt "1.prems" by simp
      then have "unat (i * 2) = unat i * unat (2 :: UInt32)"
        by (simp only: unat_mult_lem)
      then show ?thesis by simp
    qed
    have i21: "unat (i * 2 + 1) = 2 * unat i + 1"
    proof -
      have "unat (i * 2) + unat (1 :: UInt32) < 2 ^ LENGTH(32)"
        using lt "1.prems" i2 by simp
      then have "unat (i * 2 + 1) = unat (i * 2) + unat (1 :: UInt32)"
        by (simp only: unat_add_lem)
      then show ?thesis
        using i2 by simp
    qed
    have i1: "unat (i + 1) = Suc (unat i)"
    proof -
      have "unat i + unat (1 :: UInt32) < 2 ^ LENGTH(32)"
        using lt "1.prems" by simp
      then have "unat (i + 1) = unat i + unat (1 :: UInt32)"
        by (simp only: unat_add_lem)
      then show ?thesis by simp
    qed
    have inb: "unat (i * 2) < length raw \<and> unat (i * 2 + 1) < length raw"
      using lt "1.prems" i2 i21 by simp
    define v where "v = mono_sample (raw ! unat (i * 2)) (raw ! unat (i * 2 + 1))"
    have "convert_loop raw n i data = convert_loop raw n (i + 1) (data[unat i := v])"
      using True inb by (subst convert_loop.simps) (simp add: v_def)
    also have "\<dots> = Some (take (unat (i + 1)) (data[unat i := v]) @
        map (\<lambda>j. mono_sample (raw ! (2 * j)) (raw ! (2 * j + 1))) [unat (i + 1)..<unat n])"
      unfolding v_def using True inb "1.prems" by (intro "1.IH") simp_all
    finally have step: "convert_loop raw n i data =
        Some (take (unat (i + 1)) (data[unat i := v]) @
          map (\<lambda>j. mono_sample (raw ! (2 * j)) (raw ! (2 * j + 1))) [unat (i + 1)..<unat n])" .
    have tk: "take (unat (i + 1)) (data[unat i := v]) = take (unat i) data @ [v]"
      using lt "1.prems" by (simp add: i1 take_Suc_conv_app_nth)
    have up: "[unat i..<unat n] = unat i # [unat (i + 1)..<unat n]"
      using lt by (simp add: i1 upt_conv_Cons)
    have vv: "v = mono_sample (raw ! (2 * unat i)) (raw ! (2 * unat i + 1))"
      by (simp only: v_def i2 i21)
    show ?thesis
      unfolding step tk up by (simp add: vv)
  qed
qed

lemma mix_to_mono_result:
  assumes "2 * unat n \<le> length raw" and "2 * length raw < 2 ^ 32"
  shows "mix_to_mono raw n =
    Some (map (\<lambda>j. mono_sample (raw ! (2 * j)) (raw ! (2 * j + 1))) [0..<unat n])"
  unfolding mix_to_mono_def using assms by (subst convert_loop_result) simp_all

lemma mix_one_frame: "mix_to_mono [16384, 16384] 1 = Some [Fin (1 / 2)]"
  by (simp add: mix_to_mono_def mono_sample_exact)

section \<open>Claims on the frame converter\<close>

text \<open>
  C1. For a raw interleaved stereo buffer that holds \<open>inNumberFrames\<close> frames (and whose
  size in bytes fits the 32-bit \<^verbatim>\<open>mDataByteSize\<close>), the conversion returns
  \<open>inNumberFrames\<close> samples, and sample \<open>i\<close> is
  \<open>(raw[2i] / 32768 + raw[2i+1] / 32768) * 0.5\<close>, with no rounding and no clamping.
\<close>

theorem frame_converter_output:
  assumes "2 * unat inNumberFrames \<le> length raw" and "2 * length raw < 2 ^ 32"
  shows "\<exists>out. mix_to_mono raw inNumberFrames = Some out \<and> length out = unat inNumberFrames \<and>
    (\<forall>i < unat inNumberFrames. out ! i =
       Fin ((of_int (sint (raw ! (2 * i))) / 32768
             + of_int (sint (raw ! (2 * i + 1))) / 32768) * (1 / 2)))"
proof -
  let ?f = "\<lambda>j. mono_sample (raw ! (2 * j)) (raw ! (2 * j + 1))"
  have "mix_to_mono raw inNumberFrames = Some (map ?f [0..<unat inNumberFrames])"
    using assms by (rule mix_to_mono_result)
  moreover have "map ?f [0..<unat inNumberFrames] ! i =
      Fin ((of_int (sint (raw ! (2 * i))) / 32768
            + of_int (sint (raw ! (2 * i + 1))) / 32768) * (1 / 2))"
    if "i < unat inNumberFrames" for i
    using that by (simp only: nth_map_upt minus_nat.diff_0 add_0 mono_sample_exact)
  ultimately show ?thesis by simp
qed

text \<open>
  The example of the specification: the frames \<open>(0, 0)\<close> and \<open>(32767, -32768)\<close> give
  \<open>0\<close> and \<open>(32767 / 32768 + (-32768) / 32768) / 2\<close>.
\<close>

theorem frame_converter_output_witness:
  "mix_to_mono [0, 0, 32767, - 32768] 2 =
     Some [Fin 0, Fin ((32767 / 32768 + (- 32768) / 32768) / 2)]"
proof -
  let ?raw = "[0, 0, 32767, - 32768] :: int16_t list"
  have h1: "2 * unat (2 :: UInt32) \<le> length ?raw"
    by simp
  have h2: "2 * length ?raw < 2 ^ 32"
    by simp
  from frame_converter_output[OF h1 h2]
  obtain out where o: "mix_to_mono ?raw 2 = Some out" "length out = 2"
    and e: "\<forall>i < 2. out ! i =
       Fin ((of_int (sint (?raw ! (2 * i))) / 32768
             + of_int (sint (?raw ! (2 * i + 1))) / 32768) * (1 / 2))"
    by auto
  from e have "out ! 0 = Fin 0"
    by simp
  moreover from e have "out ! 1 = Fin ((32767 / 32768 + (- 32768) / 32768) / 2)"
    by simp
  moreover from o(2) have "out = [out ! 0, out ! 1]"
    by (cases out; cases "tl out") auto
  ultimately show ?thesis
    using o(1) by simp
qed

text \<open>
  C7. For every pair of \<^verbatim>\<open>int16_t\<close> samples the converter's output is a finite number
  (not a NaN, not an infinity) between \<open>-1\<close> and \<open>1\<close>.
\<close>

theorem mono_sample_range: "\<exists>v. mono_sample l r = Fin v \<and> - 1 \<le> v \<and> v \<le> 1"
proof -
  have "- 32768 \<le> sint l" "sint l \<le> 32767" "- 32768 \<le> sint r" "sint r \<le> 32767"
    using sint16_bounds[of l] sint16_bounds[of r] by simp_all
  then have "rat_of_int (- 32768) \<le> rat_of_int (sint l)"
    "rat_of_int (sint l) \<le> rat_of_int 32767"
    "rat_of_int (- 32768) \<le> rat_of_int (sint r)"
    "rat_of_int (sint r) \<le> rat_of_int 32767"
    by (simp_all only: of_int_le_iff)
  then have "- 1 \<le> (rat_of_int (sint l) / 32768 + rat_of_int (sint r) / 32768) * (1 / 2)
      \<and> (rat_of_int (sint l) / 32768 + rat_of_int (sint r) / 32768) * (1 / 2) \<le> 1"
    by simp
  then show ?thesis
    by (simp only: mono_sample_exact) blast
qed

text \<open>The two ends of the range: both samples least, both samples greatest.\<close>

theorem mono_sample_range_witness:
  "mono_sample (- 32768) (- 32768) = Fin (- 1) \<and> mono_sample 32767 32767 = Fin (32767 / 32768)"
  using mono_sample_range[of "- 32768" "- 32768"] mono_sample_range[of 32767 32767]
  by (simp add: mono_sample_exact)

section \<open>Claims on the render callback\<close>

text \<open>
  The run in which everything succeeds: the frame handed to the thread-safe function is
  the conversion of the rendered samples, one sample for each frame, and the buffer is
  freed after the call.
\<close>

lemma callback_forwards_converted_frame:
  assumes "g_isCapturing s" and "g_tsf s = Some tsf"
    and "list_malloc env = Some p" and "data_malloc env = Some d"
    and "render_status env = noErr"
    and "mNumberBuffers (rendered env) = 1"
    and "mData (mBuffers_0 (rendered env)) = Some d'"
    and "\<not> mDataByteSize (mBuffers_0 (rendered env)) < inNumberFrames * 4"
    and "resize_ok env" and "tsf_status env = napi_ok"
    and "2 * unat inNumberFrames \<le> length (rendered_samples env)"
    and "2 * length (rendered_samples env) < 2 ^ 32"
  shows "AudioInputCallback s env 1 inNumberFrames =
    (Some noErr,
     [CheckBus, CheckSession, Malloc p, Malloc d, AudioUnitRender, NewAudioData,
      NonBlockingCall tsf
        (map (\<lambda>j. mono_sample (rendered_samples env ! (2 * j))
                               (rendered_samples env ! (2 * j + 1)))
           [0..<unat inNumberFrames]) napi_ok,
      Free d', Free p])"
  using assms(1-10) mix_to_mono_result[OF assms(11,12)]
  by (simp add: AudioInputCallback_def AllocateAudioBufferList_def DeallocateAudioBufferList_def
      leave_def Let_def)

text \<open>
  C2, as the code has it. When the session is not capturing or there is no thread-safe
  function, the callback returns \<^verbatim>\<open>noErr\<close> and does nothing but evaluate its guards: no
  allocation, no render, no conversion, no call of the thread-safe function. The guard on
  the session is the second one: the guard on the bus number comes first, and an
  invocation for another bus returns before the session is looked at.
\<close>

theorem session_check_after_bus_check:
  assumes "\<not> g_isCapturing s \<or> g_tsf s = None"
  shows "AudioInputCallback s env inBusNumber inNumberFrames =
    (Some noErr, if inBusNumber \<noteq> 1 then [CheckBus] else [CheckBus, CheckSession])"
  using assms by (auto simp: AudioInputCallback_def split: bool.splits option.splits)

theorem session_check_after_bus_check_witness:
  "\<not> g_isCapturing initial_state \<and>
   AudioInputCallback initial_state (render_one 4 (Some 200)) 1 1 =
     (Some noErr, [CheckBus, CheckSession])"
  using session_check_after_bus_check[of initial_state "render_one 4 (Some 200)" 1 1]
  by (simp add: initial_state_def)

text \<open>
  C2 as stated fails: for an idle session and the input bus, the first thing the callback
  does is the check of the bus number, not the check of the session.
\<close>

theorem session_check_first_counterexample:
  "\<not> g_isCapturing initial_state \<and>
   hd (snd (AudioInputCallback initial_state (render_one 4 (Some 200)) 1 1)) \<noteq> CheckSession"
  by (simp add: AudioInputCallback_def initial_state_def)

text \<open>
  C3, as the code has it. After a successful render that left the list as it was allocated
  (one buffer, its data pointer in place), the callback checks that the size reported is at
  least the expected \<open>inNumberFrames * 4\<close> bytes (computed in 32 bits). A smaller size is
  an error of that invocation: the callback returns \<open>-1\<close>, frees the data block and the
  list, each once and nothing else, and neither converts nor calls the thread-safe
  function. Any other size, the expected one or a greater one, passes the check and the
  callback goes on to the conversion.
\<close>

theorem short_render_discarded:
  assumes "g_isCapturing s" and "g_tsf s = Some tsf"
    and "list_malloc env = Some p" and "data_malloc env = Some d" and "p \<noteq> d"
    and "render_status env = noErr"
    and "mNumberBuffers (rendered env) = 1"
    and "mData (mBuffers_0 (rendered env)) = Some d"
  shows "(mDataByteSize (mBuffers_0 (rendered env)) < inNumberFrames * 4 \<longrightarrow>
      AudioInputCallback s env 1 inNumberFrames =
        (Some (- 1),
         [CheckBus, CheckSession, Malloc p, Malloc d, AudioUnitRender, Free d, Free p])
      \<and> count_list (snd (AudioInputCallback s env 1 inNumberFrames)) (Free d) = 1
      \<and> count_list (snd (AudioInputCallback s env 1 inNumberFrames)) (Free p) = 1)
    \<and> (\<not> mDataByteSize (mBuffers_0 (rendered env)) < inNumberFrames * 4 \<longrightarrow>
      NewAudioData \<in> set (snd (AudioInputCallback s env 1 inNumberFrames)))"
  using assms
  by (simp add: AudioInputCallback_def AllocateAudioBufferList_def DeallocateAudioBufferList_def
      leave_def Let_def split: option.splits)

theorem short_render_discarded_witness:
  "mDataByteSize (mBuffers_0 (rendered (render_one 2 (Some 200)))) < 1 * 4 \<and>
   AudioInputCallback capturing_state (render_one 2 (Some 200)) 1 1 =
     (Some (- 1),
      [CheckBus, CheckSession, Malloc 100, Malloc 200, AudioUnitRender, Free 200, Free 100])"
proof -
  have h: "g_isCapturing capturing_state" "g_tsf capturing_state = Some 7"
    "list_malloc (render_one 2 (Some 200)) = Some 100"
    "data_malloc (render_one 2 (Some 200)) = Some 200"
    "(100 :: nat) \<noteq> 200"
    "render_status (render_one 2 (Some 200)) = noErr"
    "mNumberBuffers (rendered (render_one 2 (Some 200))) = 1"
    "mData (mBuffers_0 (rendered (render_one 2 (Some 200)))) = Some 200"
    by (simp_all add: capturing_state_def render_one_def)
  have small: "mDataByteSize (mBuffers_0 (rendered (render_one 2 (Some 200)))) < 1 * 4"
    by (simp add: render_one_def)
  from short_render_discarded[OF h, of 1] small show ?thesis
    by simp
qed

text \<open>
  C3 as stated fails: a render of one frame that reports 8 bytes, not the expected 4, is
  not an error. The frame is converted and handed to the thread-safe function.
\<close>

theorem oversized_render_forwarded:
  "mDataByteSize (mBuffers_0 (rendered (render_one 8 (Some 200)))) \<noteq> 1 * 4 \<and>
   AudioInputCallback capturing_state (render_one 8 (Some 200)) 1 1 =
     (Some noErr,
      [CheckBus, CheckSession, Malloc 100, Malloc 200, AudioUnitRender, NewAudioData,
       NonBlockingCall 7 [Fin (1 / 2)] napi_ok, Free 200, Free 100])"
  by (simp add: AudioInputCallback_def AllocateAudioBufferList_def DeallocateAudioBufferList_def
      leave_def capturing_state_def render_one_def noErr_def mix_one_frame)

text \<open>
  Where the render leaves the list as it was allocated (one buffer, the data pointer in
  place), every run that allocated the list and returns frees the list once and its data
  once.
\<close>

lemma render_buffer_released:
  assumes "AudioInputCallback s env inBusNumber inNumberFrames = (Some status, ev)"
    and "list_malloc env = Some p" and "data_malloc env = Some d" and "p \<noteq> d"
    and "Malloc p \<in> set ev"
    and "mNumberBuffers (rendered env) = 1" and "mData (mBuffers_0 (rendered env)) = Some d"
  shows "count_list ev (Free p) = 1 \<and> count_list ev (Free d) = 1"
  using assms
  by (auto simp: AudioInputCallback_def AllocateAudioBufferList_def DeallocateAudioBufferList_def
      leave_def Let_def split: if_splits bool.splits option.splits)

text \<open>
  C8 fails on the first validation path, the one taken when the render returns \<^verbatim>\<open>noErr\<close>
  and the list no longer has one buffer with a data pointer. The callback allocates the
  list at 100 and its data at 200. In the first run the render leaves
  \<^verbatim>\<open>mBuffers[0].mData\<close> null, in the second it leaves \<^verbatim>\<open>mNumberBuffers\<close> zero with the data
  pointer in place. In both \<^verbatim>\<open>DeallocateAudioBufferList\<close> frees the list and nothing else:
  the data block at 200 is never freed.
\<close>

theorem render_buffer_data_not_released:
  "AudioInputCallback capturing_state (render_one 4 None) 1 1 =
     (Some (- 1), [CheckBus, CheckSession, Malloc 100, Malloc 200, AudioUnitRender, Free 100])
   \<and> AudioInputCallback capturing_state (render_none 4 (Some 200)) 1 1 =
     (Some (- 1), [CheckBus, CheckSession, Malloc 100, Malloc 200, AudioUnitRender, Free 100])
   \<and> count_list [CheckBus, CheckSession, Malloc 100, Malloc 200, AudioUnitRender, Free 100]
        (Free 200) = 0"
  by (simp add: AudioInputCallback_def AllocateAudioBufferList_def DeallocateAudioBufferList_def
      leave_def capturing_state_def render_one_def render_none_def noErr_def)

theorem render_buffer_data_not_released_witness:
  "count_list (snd (AudioInputCallback capturing_state (render_one 4 None) 1 1)) (Malloc 200) = 1
   \<and> count_list (snd (AudioInputCallback capturing_state (render_one 4 None) 1 1)) (Free 200) = 0
   \<and> count_list (snd (AudioInputCallback capturing_state (render_none 4 (Some 200)) 1 1))
        (Free 200) = 0"
  using render_buffer_data_not_released by simp

section \<open>The session between calls\<close>

text \<open>
  The ways \<^verbatim>\<open>StartCapture\<close> ends: refused with the globals untouched and nothing done;
  failed from an idle session, which it leaves idle and without thread-safe function, the
  unit handle null or as it was; or succeeded from an idle session, with the flag, the
  unit and the thread-safe function set.
\<close>

lemma StartCapture_outcome:
  assumes "StartCapture env info s = (r, s', ev)"
  shows "(\<exists>e. r = Inl e \<and> s' = s \<and> ev = [])
    \<or> ((\<exists>e. r = Inl e) \<and> \<not> g_isCapturing s \<and> g_tsf s = None \<and>
        \<not> g_isCapturing s' \<and> g_tsf s' = None \<and>
        (g_audioUnit s' = None \<or> g_audioUnit s' = g_audioUnit s))
    \<or> (r = Inr True \<and> \<not> g_isCapturing s \<and> g_tsf s = None \<and>
        g_isCapturing s' \<and> g_tsf s' \<noteq> None \<and> g_audioUnit s' \<noteq> None)"
  using assms
  by (auto simp: StartCapture_def Let_def split: if_splits prod.splits option.splits)

lemma StopCapture_exit:
  assumes "StopCapture env s = (r, s', ev)"
  shows "r \<and> \<not> g_isCapturing s' \<and> g_tsf s' = None \<and>
    (if g_isCapturing s then g_audioUnit s' = None else g_audioUnit s' = g_audioUnit s)"
  using assms by (auto simp: StopCapture_def split: option.splits if_splits)

lemma ListDevices_state: "ListDevices env s = (r, s', ev) \<Longrightarrow> s' = s \<and> ev = []"
  by (auto simp: ListDevices_def split: if_splits)

text \<open>
  Between calls the three of them go together: the flag is set exactly when there is a
  unit, and exactly when there is a thread-safe function.
\<close>

lemma reachable_invariant:
  assumes "reachable s"
  shows "(g_audioUnit s \<noteq> None \<longleftrightarrow> g_isCapturing s) \<and> (g_tsf s \<noteq> None \<longleftrightarrow> g_isCapturing s)"
  using assms
proof (induction rule: reachable.induct)
  case reachable_initial
  show ?case
    by (simp add: initial_state_def)
next
  case reachable_list
  then show ?case
    by (auto dest: ListDevices_state)
next
  case reachable_start
  from StartCapture_outcome[OF reachable_start.hyps(2)] reachable_start.IH
  show ?case by auto
next
  case reachable_stop
  from StopCapture_exit[OF reachable_stop.hyps(2)] reachable_stop.IH
  show ?case by (auto split: if_splits)
qed

lemma reachable_capturing: "reachable capturing_state"
proof -
  have "StartCapture start_ok mic_args initial_state =
      (Inr True, capturing_state,
       [DeviceLookup, FindComponent, InstanceNew (Some 1),
        SetProperty 1 EnableIO_Input, SetProperty 1 EnableIO_Output,
        SetProperty 1 CurrentDevice, SetProperty 1 StreamFormat,
        GetProperty 1 StreamFormat, SetProperty 1 SetInputCallback, Initialize 1,
        TsfNew (JsFunction 0) (Some 7), TsfAcquire 7, OutputUnitStart 1])"
    by (simp add: StartCapture_def start_ok_def mic_args_def initial_state_def
        capturing_state_def arg_def GetAudioDeviceIDFromUID_def one_device_def noErr_def
        kAudioDeviceUnknown_def)
  with reachable_initial show ?thesis
    by (rule reachable_start)
qed

section \<open>Claims on starting and stopping\<close>

text \<open>
  C10. Called with fewer than two arguments, or with a first argument that is not a string,
  or with a second argument that is not a function, \<^verbatim>\<open>StartCapture\<close> throws the type error,
  does nothing, and leaves the four globals as they were.
\<close>

theorem start_capture_type_error:
  assumes "length info < 2 \<or> \<not> IsString (arg info 0) \<or> \<not> IsFunction (arg info 1)"
  shows "StartCapture env info s = (Inl ArgumentTypeError, s, [])"
  using assms by (simp add: StartCapture_def)

theorem start_capture_type_error_witness:
  "length [JsString ''mic''] < 2 \<and>
   StartCapture start_ok [JsString ''mic''] capturing_state =
     (Inl ArgumentTypeError, capturing_state, [])"
  using start_capture_type_error[of "[JsString ''mic'']" start_ok capturing_state]
  by simp

text \<open>
  C5. Called with a device id and a callback while a session is capturing, \<^verbatim>\<open>StartCapture\<close>
  throws the error of a capture already in progress, before any device lookup and any call
  on a unit or a thread-safe function, and leaves the four globals as they were.
\<close>

theorem start_while_capturing:
  assumes "g_isCapturing s"
  shows "StartCapture env (JsString deviceId # JsFunction onFrame # rest) s =
    (Inl AlreadyCapturing, s, [])"
  using assms by (simp add: StartCapture_def arg_def)

theorem start_while_capturing_witness:
  "g_isCapturing capturing_state \<and>
   StartCapture start_ok mic_args capturing_state = (Inl AlreadyCapturing, capturing_state, [])"
proof -
  have h: "g_isCapturing capturing_state"
    by (simp add: capturing_state_def)
  from start_while_capturing[OF h, of start_ok "''mic''" 0 "[]"] h show ?thesis
    by (simp add: mic_args_def)
qed

text \<open>
  What a failed \<^verbatim>\<open>StartCapture\<close> does restore, started from an idle session: the flag is
  clear, the unit handle and the thread-safe function are null.
\<close>

lemma failed_start_state:
  assumes "StartCapture env info s = (Inl e, s', ev)"
    and "\<not> g_isCapturing s" and "g_audioUnit s = None" and "g_tsf s = None"
  shows "\<not> g_isCapturing s' \<and> g_audioUnit s' = None \<and> g_tsf s' = None"
  using StartCapture_outcome[OF assms(1)] assms(2-4) by auto

text \<open>
  What it does not restore: once the device is found, every later failure leaves its id in
  \<^verbatim>\<open>g_targetDeviceID\<close>.
\<close>

lemma failed_start_target_device:
  assumes "StartCapture env info s = (Inl e, s', ev)"
    and "e \<notin> {ArgumentTypeError, AlreadyCapturing, ThreadSafeFunctionExists, DeviceNotFound}"
  shows "g_targetDeviceID s' \<noteq> kAudioDeviceUnknown
    \<and> GetAudioDeviceIDFromUID env (Utf8Value (arg info 0)) = (noErr, g_targetDeviceID s')"
  using assms
  by (auto simp: StartCapture_def Let_def split: if_splits prod.splits option.splits)

text \<open>
  C4 fails for the target device. The device \<open>mic\<close> is found, the unit is created and
  configured, and \<^verbatim>\<open>AudioUnitInitialize\<close> fails: \<^verbatim>\<open>StartCapture\<close> throws, disposes of the
  unit and clears its handle, but \<^verbatim>\<open>g_targetDeviceID\<close> stays 42, where the idle session has
  \<^verbatim>\<open>kAudioDeviceUnknown\<close> and where \<^verbatim>\<open>StopCapture\<close> puts \<^verbatim>\<open>kAudioDeviceUnknown\<close> back.
\<close>

theorem failed_start_keeps_target_device:
  "StartCapture (start_ok\<lparr>initialize_status := 1\<rparr>) mic_args initial_state =
     (Inl (InitializeFailed 1), initial_state\<lparr>g_targetDeviceID := 42\<rparr>,
      [DeviceLookup, FindComponent, InstanceNew (Some 1),
       SetProperty 1 EnableIO_Input, SetProperty 1 EnableIO_Output,
       SetProperty 1 CurrentDevice, SetProperty 1 StreamFormat,
       GetProperty 1 StreamFormat, SetProperty 1 SetInputCallback, Initialize 1,
       InstanceDispose 1])
   \<and> g_targetDeviceID (initial_state\<lparr>g_targetDeviceID := 42\<rparr>) \<noteq> kAudioDeviceUnknown
   \<and> g_targetDeviceID (fst (snd (StopCapture stop_ok capturing_state))) = kAudioDeviceUnknown"
  by (simp add: StartCapture_def StopCapture_def start_ok_def mic_args_def initial_state_def
      capturing_state_def arg_def GetAudioDeviceIDFromUID_def one_device_def noErr_def
      kAudioDeviceUnknown_def)

theorem failed_start_keeps_target_device_witness:
  "fst (snd (StartCapture (start_ok\<lparr>initialize_status := 1\<rparr>) mic_args initial_state))
     \<noteq> initial_state"
  using failed_start_keeps_target_device
  by (simp add: initial_state_def kAudioDeviceUnknown_def)

text \<open>
  C6. \<^verbatim>\<open>StopCapture\<close> returns true in every case. On an idle session it changes nothing
  and calls nothing. On a capturing session it stops, uninitializes, unregisters the
  callback of and disposes of the unit and releases the thread-safe function, whatever the
  statuses of these calls, and leaves the session in its initial state. A second call
  after any call changes nothing and calls nothing.
\<close>

theorem stop_capture_idempotent:
  "fst (StopCapture env s)
   \<and> (reachable s \<and> \<not> g_isCapturing s \<longrightarrow> StopCapture env s = (True, s, []))
   \<and> (reachable s \<and> g_isCapturing s \<longrightarrow>
        (\<exists>u t. g_audioUnit s = Some u \<and> g_tsf s = Some t \<and>
           StopCapture env s =
             (True, initial_state,
              [OutputUnitStop u, Uninitialize u, SetProperty u ClearInputCallback,
               InstanceDispose u, TsfRelease t])))
   \<and> StopCapture env' (fst (snd (StopCapture env s))) = (True, fst (snd (StopCapture env s)), [])"
proof (intro conjI impI)
  show "fst (StopCapture env s)"
    by (simp add: StopCapture_def split: option.splits)
next
  assume "reachable s \<and> \<not> g_isCapturing s"
  then have "\<not> g_isCapturing s" "g_tsf s = None"
    using reachable_invariant[of s] by auto
  then show "StopCapture env s = (True, s, [])"
    by (simp add: StopCapture_def)
next
  assume a: "reachable s \<and> g_isCapturing s"
  then obtain u t where ut: "g_audioUnit s = Some u" "g_tsf s = Some t"
    using reachable_invariant[of s] by auto
  with a have "StopCapture env s =
      (True, initial_state,
       [OutputUnitStop u, Uninitialize u, SetProperty u ClearInputCallback,
        InstanceDispose u, TsfRelease t])"
    by (simp add: StopCapture_def initial_state_def)
  with ut show "\<exists>u t. g_audioUnit s = Some u \<and> g_tsf s = Some t \<and>
      StopCapture env s =
        (True, initial_state,
         [OutputUnitStop u, Uninitialize u, SetProperty u ClearInputCallback,
          InstanceDispose u, TsfRelease t])"
    by blast
next
  let ?s' = "fst (snd (StopCapture env s))"
  obtain r ev where "StopCapture env s = (r, ?s', ev)"
    by (cases "StopCapture env s") auto
  then have "\<not> g_isCapturing ?s'" "g_tsf ?s' = None"
    using StopCapture_exit by blast+
  then show "StopCapture env' ?s' = (True, ?s', [])"
    by (simp add: StopCapture_def)
qed

theorem stop_capture_idempotent_witness:
  "reachable capturing_state \<and> g_isCapturing capturing_state \<and>
   StopCapture stop_ok capturing_state =
     (True, initial_state,
      [OutputUnitStop 1, Uninitialize 1, SetProperty 1 ClearInputCallback, InstanceDispose 1,
       TsfRelease 7]) \<and>
   StopCapture stop_ok initial_state = (True, initial_state, [])"
proof -
  have c: "g_isCapturing capturing_state" "g_audioUnit capturing_state = Some 1"
    "g_tsf capturing_state = Some 7"
    by (simp_all add: capturing_state_def)
  from stop_capture_idempotent[of stop_ok capturing_state stop_ok] reachable_capturing c
  show ?thesis by auto
qed

text \<open>
  C9. Between calls of the exported operations, at the entry and at the exit of each, the
  unit handle is non-null exactly when the capturing flag is set. A \<^verbatim>\<open>StartCapture\<close> that
  succeeds sets both; one that fails after it got past its guards (it started from an idle
  session) leaves both clear, and one refused while capturing changes nothing;
  \<^verbatim>\<open>StopCapture\<close> clears both; \<^verbatim>\<open>ListDevices\<close> changes nothing.
\<close>

theorem unit_handle_iff_capturing:
  assumes "reachable s"
  shows "(g_audioUnit s \<noteq> None \<longleftrightarrow> g_isCapturing s)
    \<and> (StartCapture env info s = (started, s1, ev1) \<longrightarrow>
         (g_audioUnit s1 \<noteq> None \<longleftrightarrow> g_isCapturing s1)
         \<and> (case started of
              Inr ok \<Rightarrow> g_audioUnit s1 \<noteq> None \<and> g_isCapturing s1
            | Inl e \<Rightarrow> (if g_isCapturing s then s1 = s
                        else g_audioUnit s1 = None \<and> \<not> g_isCapturing s1)))
    \<and> (StopCapture senv s = (stopped, s2, ev2) \<longrightarrow> g_audioUnit s2 = None \<and> \<not> g_isCapturing s2)
    \<and> (ListDevices (denv :: device_env) s = (listed, s3, ev3) \<longrightarrow> s3 = s)"
proof -
  note inv = reachable_invariant[OF assms]
  have a: "g_audioUnit s \<noteq> None \<longleftrightarrow> g_isCapturing s"
    using inv by simp
  have b: "(g_audioUnit s1 \<noteq> None \<longleftrightarrow> g_isCapturing s1)
      \<and> (case started of
           Inr ok \<Rightarrow> g_audioUnit s1 \<noteq> None \<and> g_isCapturing s1
         | Inl e \<Rightarrow> (if g_isCapturing s then s1 = s
                     else g_audioUnit s1 = None \<and> \<not> g_isCapturing s1))"
    if st: "StartCapture env info s = (started, s1, ev1)"
  proof -
    from assms st have "reachable s1"
      by (rule reachable_start)
    then have "g_audioUnit s1 \<noteq> None \<longleftrightarrow> g_isCapturing s1"
      using reachable_invariant[of s1] by simp
    moreover have "case started of
        Inr ok \<Rightarrow> g_audioUnit s1 \<noteq> None \<and> g_isCapturing s1
      | Inl e \<Rightarrow> (if g_isCapturing s then s1 = s
                  else g_audioUnit s1 = None \<and> \<not> g_isCapturing s1)"
      using StartCapture_outcome[OF st] inv by (auto split: sum.splits)
    ultimately show ?thesis by simp
  qed
  have c: "g_audioUnit s2 = None \<and> \<not> g_isCapturing s2"
    if "StopCapture senv s = (stopped, s2, ev2)"
    using StopCapture_exit[OF that] inv by (auto split: if_splits)
  have d: "s3 = s" if "ListDevices denv s = (listed, s3, ev3)"
    using ListDevices_state[OF that] by simp
  from a b c d show ?thesis by blast
qed

theorem unit_handle_iff_capturing_witness:
  "reachable capturing_state \<and> g_audioUnit capturing_state \<noteq> None \<and> g_isCapturing capturing_state
   \<and> StopCapture stop_ok capturing_state =
       (True, initial_state,
        [OutputUnitStop 1, Uninitialize 1, SetProperty 1 ClearInputCallback, InstanceDispose 1,
         TsfRelease 7])
   \<and> g_audioUnit initial_state = None \<and> \<not> g_isCapturing initial_state"
proof -
  have stop: "StopCapture stop_ok capturing_state =
       (True, initial_state,
        [OutputUnitStop 1, Uninitialize 1, SetProperty 1 ClearInputCallback, InstanceDispose 1,
         TsfRelease 7])"
    by (simp add: StopCapture_def capturing_state_def initial_state_def)
  from unit_handle_iff_capturing[OF reachable_capturing, of _ _ _ _ _ stop_ok True initial_state]
    stop reachable_capturing
  show ?thesis
    by (simp add: capturing_state_def)
qed

end
